theory Spec2Isabelle
  imports
    Complex_Main
    "HOL-Library.Char_ord"
    "HOL-Library.List_Lexorder"
    "HOL-Library.Product_Lexorder"
begin

section \<open>Values of a numeric column\<close>

text \<open>
  A numeric column of a table holds floating-point values: a finite number, one of the two
  infinities, or NaN. Comparisons are those of Python on floats: every comparison with NaN
  is false. Finite values are taken exactly (rounding is not modelled).
\<close>

datatype 'a xnum = Fin 'a | PInf | NInf | NaN

fun xle :: "'a::linorder xnum \<Rightarrow> 'a xnum \<Rightarrow> bool" where
  "xle NaN _ = False"
| "xle _ NaN = False"
| "xle NInf _ = True"
| "xle _ PInf = True"
| "xle (Fin a) (Fin b) = (a \<le> b)"
| "xle PInf _ = False"
| "xle (Fin a) NInf = False"

fun xgt :: "'a::linorder xnum \<Rightarrow> 'a xnum \<Rightarrow> bool" where
  "xgt NaN _ = False"
| "xgt _ NaN = False"
| "xgt PInf PInf = False"
| "xgt PInf _ = True"
| "xgt _ PInf = False"
| "xgt NInf _ = False"
| "xgt (Fin a) NInf = True"
| "xgt (Fin a) (Fin b) = (a > b)"

section \<open>Sentiment classifier\<close>

text \<open>
  \<^verbatim>\<open>
  def categorize_sentiment(score):
      if score > 0.7:
          return "Positive"
      elif 0.3 <= score <= 0.7:
          return "Neutral"
      else:
          return "Negative"
  \<close>
  The chained comparison \<^verbatim>\<open>0.3 <= score <= 0.7\<close> is the conjunction of its two halves.
\<close>

definition categorize_sentiment :: "rat xnum \<Rightarrow> string" where
  "categorize_sentiment score =
     (if xgt score (Fin (7/10)) then ''Positive''
      else if xle (Fin (3/10)) score \<and> xle score (Fin (7/10)) then ''Neutral''
      else ''Negative'')"

section \<open>Input tables\<close>

text \<open>
  The three tables after \<^verbatim>\<open>pd.read_csv\<close> and \<^verbatim>\<open>pd.to_datetime\<close>. A date is a calendar
  day, held as the number of days since 1970-01-01 (a pandas timestamp counts from that
  epoch); \<open>to_datetime y m d\<close> is the day number of the civil date \<open>y-m-d\<close>.
\<close>

type_synonym date = int

definition to_datetime :: "int \<Rightarrow> int \<Rightarrow> int \<Rightarrow> date" where
  "to_datetime y m d =
     (let y' = (if m \<le> 2 then y - 1 else y);
          era = y' div 400;
          yoe = y' - era * 400;
          doy = (153 * (if m > 2 then m - 3 else m + 9) + 2) div 5 + d - 1;
          doe = yoe * 365 + yoe div 4 - yoe div 100 + doy
      in era * 146097 + doe - 719468)"

record GeoRecord =
  latitude :: real
  longitude :: real
  region :: string
  sales :: rat

record ProjectedPoint = GeoRecord +
  mercator_x :: "real xnum"
  mercator_y :: "real xnum"

record FeedbackRecord =
  date :: date
  category :: string
  rating :: int
  sentiment_score :: "rat xnum"

record SalesRecord =
  date :: date
  category :: string
  sales :: rat

datatype error = ValueError

section \<open>Table operations\<close>

text \<open>
  \<^verbatim>\<open>df.groupby(key)['sales'].sum().reset_index()\<close>: one row per distinct key, the rows in
  ascending key order (\<^verbatim>\<open>sort=True\<close> is the default), each with the sum of its group.
\<close>

definition groupby_sum :: "('k::linorder \<times> rat) list \<Rightarrow> ('k \<times> rat) list" where
  "groupby_sum rows =
     map (\<lambda>k. (k, sum_list (map snd (filter (\<lambda>row. fst row = k) rows))))
       (sort (remdups (map fst rows)))"

text \<open>
  A pivoted table: row labels, column labels and a grid of cells, one list per row label.
  A cell without a value is NaN, here \<open>None\<close>.
\<close>

record frame =
  index :: "string list"
  columns :: "string list"
  vals :: "rat option list list"

text \<open>
  \<^verbatim>\<open>df.pivot(index=..., columns=..., values=...)\<close>: labels sorted, a cell for every pair of
  labels, NaN where the table has no row for the pair; it raises \<^verbatim>\<open>ValueError\<close> when a pair
  occurs twice.
\<close>

definition pivot :: "((string \<times> string) \<times> rat) list \<Rightarrow> error + frame" where
  "pivot rows =
     (if \<not> distinct (map fst rows) then Inl ValueError
      else
        let idx = sort (remdups (map (fst \<circ> fst) rows));
            cols = sort (remdups (map (snd \<circ> fst) rows))
        in Inr \<lparr>index = idx, columns = cols,
                vals = map (\<lambda>i. map (\<lambda>c. map_of rows (i, c)) cols) idx\<rparr>)"

text \<open>\<^verbatim>\<open>df.fillna(v)\<close>: every NaN cell becomes \<open>v\<close>.\<close>

definition fillna :: "rat \<Rightarrow> frame \<Rightarrow> frame" where
  "fillna v df =
     df\<lparr>vals := map (map (\<lambda>cell. case cell of None \<Rightarrow> Some v | Some x \<Rightarrow> Some x)) (vals df)\<rparr>"

text \<open>
  \<^verbatim>\<open>df.reindex(labels)\<close>: the rows in the order of \<open>labels\<close>; a label that the table has
  keeps its row, a label that it lacks gets a row of NaN, and a row whose label is not
  asked for is dropped.
\<close>

definition reindex :: "string list \<Rightarrow> frame \<Rightarrow> frame" where
  "reindex labels df =
     df\<lparr>index := labels,
        vals := map (\<lambda>l. case map_of (zip (index df) (vals df)) l of
                             None \<Rightarrow> replicate (length (columns df)) None
                           | Some r \<Rightarrow> r) labels\<rparr>"

text \<open>
  \<^verbatim>\<open>df.reset_index().melt(id_vars='day_of_week', ...)\<close>: the grid as a list of cells
  (row label, column label, value), column by column.
\<close>

definition melt :: "frame \<Rightarrow> (string \<times> string \<times> rat option) list" where
  "melt df =
     concat (map (\<lambda>(j, c). map (\<lambda>(i, r). (i, c, r ! j)) (zip (index df) (vals df)))
                 (enumerate 0 (columns df)))"

text \<open>
  \<^verbatim>\<open>s.value_counts().reset_index()\<close>: one row per value that occurs, with its number of
  occurrences, the rows by descending count; values with equal counts stay in the order of
  their first occurrence.
\<close>

definition unique :: "'a list \<Rightarrow> 'a list" where
  "unique xs = rev (remdups (rev xs))"

definition value_counts :: "'a list \<Rightarrow> ('a \<times> nat) list" where
  "value_counts xs =
     sort_key (\<lambda>(v, c). - int c) (map (\<lambda>v. (v, count_list xs v)) (unique xs))"

section \<open>Sales aggregates\<close>

definition days_order :: "string list" where
  "days_order =
     [''Monday'', ''Tuesday'', ''Wednesday'', ''Thursday'', ''Friday'', ''Saturday'', ''Sunday'']"

text \<open>\<^verbatim>\<open>dt.day_name()\<close>: 1970-01-01 was a Thursday.\<close>

definition day_name :: "date \<Rightarrow> string" where
  "day_name d = days_order ! nat ((d + 3) mod 7)"

definition daily_sales :: "SalesRecord list \<Rightarrow> (date \<times> rat) list" where
  "daily_sales sales_data =
     groupby_sum (map (\<lambda>r. (SalesRecord.date r, SalesRecord.sales r)) sales_data)"

definition category_sales :: "SalesRecord list \<Rightarrow> (string \<times> rat) list" where
  "category_sales sales_data =
     groupby_sum (map (\<lambda>r. (SalesRecord.category r, SalesRecord.sales r)) sales_data)"

definition heatmap_data :: "SalesRecord list \<Rightarrow> ((string \<times> string) \<times> rat) list" where
  "heatmap_data sales_data =
     groupby_sum
       (map (\<lambda>r. ((day_name (SalesRecord.date r), SalesRecord.category r), SalesRecord.sales r))
            sales_data)"

text \<open>
  \<^verbatim>\<open>
  heatmap_pivot = heatmap_data.pivot(index='day_of_week', columns='category',
                                     values='sales').fillna(0)
  heatmap_pivot = heatmap_pivot.reindex(days_order)
  \<close>
  The cells are filled before the rows are reindexed.
\<close>

definition heatmap_pivot :: "SalesRecord list \<Rightarrow> error + frame" where
  "heatmap_pivot sales_data =
     (case pivot (heatmap_data sales_data) of
        Inl e \<Rightarrow> Inl e
      | Inr p \<Rightarrow> Inr (reindex days_order (fillna 0 p)))"

definition heatmap_source :: "SalesRecord list \<Rightarrow> error + (string \<times> string \<times> rat option) list" where
  "heatmap_source sales_data =
     (case heatmap_pivot sales_data of Inl e \<Rightarrow> Inl e | Inr p \<Rightarrow> Inr (melt p))"

text \<open>
  The sum of a column of cells as floating-point addition gives it: NaN as soon as one
  cell is NaN.
\<close>

fun add_cell :: "rat option \<Rightarrow> rat option \<Rightarrow> rat option" where
  "add_cell (Some a) (Some b) = Some (a + b)"
| "add_cell _ _ = None"

definition sum_cells :: "rat option list \<Rightarrow> rat option" where
  "sum_cells cells = foldr add_cell cells (Some 0)"

section \<open>Reprojection\<close>

text \<open>
  Modelled from the spec: the transformer of \<^verbatim>\<open>pyproj\<close> from EPSG:4326 to EPSG:3857, which
  the source only calls. Section 4.4 gives the spherical Mercator forward formulas
  \<open>x = R * \<lambda>\<close> and \<open>y = R * ln (tan (\<pi>/4 + \<phi>/2))\<close> with \<open>R = 6378137\<close> and the angles in
  radians, and says that the tangent term diverges at the poles, where the result is an
  infinity. Outside the range of latitudes the logarithm has no value.
\<close>

definition earth_radius :: real where
  "earth_radius = 6378137"

definition radians :: "real \<Rightarrow> real" where
  "radians deg = deg * pi / 180"

definition transform :: "real \<Rightarrow> real \<Rightarrow> real xnum \<times> real xnum" where
  "transform lon lat =
     (Fin (earth_radius * radians lon),
      if - 90 < lat \<and> lat < 90 then Fin (earth_radius * ln (tan (pi / 4 + radians lat / 2)))
      else if lat = 90 then PInf
      else if lat = - 90 then NInf
      else NaN)"

text \<open>
  \<^verbatim>\<open>
  geo_data['mercator_x'], geo_data['mercator_y'] = zip(*geo_data.apply(
      lambda row: transformer.transform(row['longitude'], row['latitude']),
      axis=1
  ))
  \<close>
  Every row is handed to the transformer with its longitude first, and the two coordinates
  become two new columns. For a table without rows \<^verbatim>\<open>zip(*...)\<close> does not yield the two
  sequences that the two targets need, and the unpacking raises \<^verbatim>\<open>ValueError\<close>.
\<close>

definition reproject ::
  "(real \<Rightarrow> real \<Rightarrow> real xnum \<times> real xnum) \<Rightarrow> GeoRecord list \<Rightarrow> error + ProjectedPoint list" where
  "reproject tr geo_data =
     (if geo_data = [] then Inl ValueError
      else Inr (map (\<lambda>row.
                  let (x, y) = tr (longitude row) (latitude row)
                  in \<lparr>latitude = latitude row, longitude = longitude row,
                      region = region row, sales = GeoRecord.sales row,
                      mercator_x = x, mercator_y = y\<rparr>) geo_data))"

section \<open>Sentiment histogram\<close>

text \<open>
  \<^verbatim>\<open>
  customer_feedback['Sentiment'] = customer_feedback['sentiment_score'].apply(categorize_sentiment)
  sentiment_counts = customer_feedback['Sentiment'].value_counts().reset_index()
  \<close>
\<close>

definition sentiment_counts :: "FeedbackRecord list \<Rightarrow> (string \<times> nat) list" where
  "sentiment_counts customer_feedback =
     value_counts (map (\<lambda>r. categorize_sentiment (sentiment_score r)) customer_feedback)"

section \<open>The whole script\<close>






section \<open>Properties of the sentiment classifier\<close>

text \<open>
  Claim C1. Every score strictly above 0.7 is labelled Positive, every score between 0.3 and
  0.7 (both ends included) is labelled Neutral, and every score strictly below 0.3 is labelled
  Negative; at the boundaries, 0.7 and 0.3 are Neutral, 0.70001 is Positive and 0.29999 is
  Negative.
\<close>

theorem categorize_sentiment_bands:
  "(7/10 < p \<longrightarrow> categorize_sentiment (Fin p) = ''Positive'')
   \<and> (3/10 \<le> n \<and> n \<le> 7/10 \<longrightarrow> categorize_sentiment (Fin n) = ''Neutral'')
   \<and> (m < 3/10 \<longrightarrow> categorize_sentiment (Fin m) = ''Negative'')
   \<and> categorize_sentiment (Fin (7/10)) = ''Neutral''
   \<and> categorize_sentiment (Fin (70001/100000)) = ''Positive''
   \<and> categorize_sentiment (Fin (3/10)) = ''Neutral''
   \<and> categorize_sentiment (Fin (29999/100000)) = ''Negative''"
  by (simp add: categorize_sentiment_def)

theorem categorize_sentiment_bands_witness:
  "(7/10 < (9/10 :: rat) \<and> categorize_sentiment (Fin (9/10)) = ''Positive'')
   \<and> (3/10 \<le> (1/2 :: rat) \<and> (1/2 :: rat) \<le> 7/10
        \<and> categorize_sentiment (Fin (1/2)) = ''Neutral'')
   \<and> ((1/10 :: rat) < 3/10 \<and> categorize_sentiment (Fin (1/10)) = ''Negative'')"
  using categorize_sentiment_bands [of "9/10" "1/2" "1/10"] by simp

text \<open>
  Claim C10. The classifier is total and falls through to Negative: a score for which both
  tests are false is labelled Negative; NaN fails every comparison and is labelled Negative;
  every score, also one outside the range from 0 to 1 or an infinity, gets one of the three
  labels.
\<close>

theorem categorize_sentiment_total:
  "(\<not> xgt s (Fin (7/10)) \<and> \<not> (xle (Fin (3/10)) s \<and> xle s (Fin (7/10)))
      \<longrightarrow> categorize_sentiment s = ''Negative'')
   \<and> \<not> xgt NaN (Fin (7/10)) \<and> \<not> xle (Fin (3/10)) NaN \<and> \<not> xle NaN (Fin (7/10))
   \<and> categorize_sentiment NaN = ''Negative''
   \<and> categorize_sentiment s \<in> {''Positive'', ''Neutral'', ''Negative''}
   \<and> categorize_sentiment (Fin (- 5)) = ''Negative''
   \<and> categorize_sentiment NInf = ''Negative''
   \<and> categorize_sentiment (Fin 2) = ''Positive''
   \<and> categorize_sentiment PInf = ''Positive''"
  by (simp add: categorize_sentiment_def)

theorem categorize_sentiment_total_witness:
  "\<not> xgt (NaN :: rat xnum) (Fin (7/10))
   \<and> \<not> (xle (Fin (3/10)) (NaN :: rat xnum) \<and> xle (NaN :: rat xnum) (Fin (7/10)))
   \<and> categorize_sentiment NaN = ''Negative''"
  using categorize_sentiment_total [of NaN] by simp

section \<open>Properties of the sentiment histogram\<close>

lemma count_list_map_filter:
  "count_list (map f xs) l = length (filter (\<lambda>x. f x = l) xs)"
  by (induction xs) auto

lemma set_unique: "set (unique xs) = set xs"
  by (simp add: unique_def)

lemma distinct_unique: "distinct (unique xs)"
  by (simp add: unique_def)

lemma set_value_counts: "set (value_counts xs) = (\<lambda>v. (v, count_list xs v)) ` set xs"
  by (simp add: value_counts_def set_unique)

lemma distinct_map_sort_key: "distinct (map g (sort_key f l)) = distinct (map g l)"
  by (simp add: distinct_map)

lemma distinct_value_counts: "distinct (map fst (value_counts xs))"
proof -
  let ?l = "map (\<lambda>v. (v, count_list xs v)) (unique xs)"
  have "map fst ?l = unique xs"
    by (simp add: comp_def)
  then have "distinct (map fst ?l)"
    by (simp add: distinct_unique)
  then show ?thesis
    by (simp only: value_counts_def distinct_map_sort_key)
qed

lemma categorize_sentiment_label:
  "categorize_sentiment s \<in> {''Positive'', ''Neutral'', ''Negative''}"
  by (simp add: categorize_sentiment_def)

text \<open>
  Claim C8. The histogram has one bucket for each label that at least one record gets, with
  the number of records that get it; a label that no record gets has no bucket. The labels
  are among Positive, Neutral and Negative.
\<close>

theorem sentiment_counts_buckets:
  "distinct (map fst (sentiment_counts fb))
   \<and> set (map fst (sentiment_counts fb)) \<subseteq> {''Positive'', ''Neutral'', ''Negative''}
   \<and> ((l, c) \<in> set (sentiment_counts fb) \<longleftrightarrow>
        0 < c \<and> c = length (filter (\<lambda>r. categorize_sentiment (sentiment_score r) = l) fb))"
proof -
  let ?labels = "map (\<lambda>r. categorize_sentiment (sentiment_score r)) fb"
  have d: "distinct (map fst (sentiment_counts fb))"
    by (simp add: sentiment_counts_def distinct_value_counts)
  have "set (map fst (sentiment_counts fb)) = set ?labels"
    by (simp add: sentiment_counts_def set_value_counts image_image)
  then have s: "set (map fst (sentiment_counts fb)) \<subseteq> {''Positive'', ''Neutral'', ''Negative''}"
    using categorize_sentiment_label by auto
  have "(l, c) \<in> set (sentiment_counts fb) \<longleftrightarrow> l \<in> set ?labels \<and> c = count_list ?labels l"
    by (auto simp: sentiment_counts_def set_value_counts)
  also have "\<dots> \<longleftrightarrow> 0 < c \<and> c = count_list ?labels l"
    using count_list_0_iff [of ?labels l] by auto
  also have "\<dots> \<longleftrightarrow>
      0 < c \<and> c = length (filter (\<lambda>r. categorize_sentiment (sentiment_score r) = l) fb)"
    by (simp add: count_list_map_filter)
  finally show ?thesis using d s by blast
qed

theorem sentiment_counts_buckets_witness:
  "sentiment_counts
     (map (\<lambda>s. \<lparr>FeedbackRecord.date = 0, category = ''x'', rating = 3, sentiment_score = s\<rparr>)
        [Fin (1/10), Fin (1/2), Fin (9/10), Fin (7/10), Fin (3/10)])
     = [(''Neutral'', 3), (''Negative'', 1), (''Positive'', 1)]
   \<and> (''Neutral'', 3) \<in> set (sentiment_counts
     (map (\<lambda>s. \<lparr>FeedbackRecord.date = 0, category = ''x'', rating = 3, sentiment_score = s\<rparr>)
        [Fin (1/10), Fin (1/2), Fin (9/10), Fin (7/10), Fin (3/10)]))
   \<and> (3::nat) = length (filter (\<lambda>r. categorize_sentiment (sentiment_score r) = ''Neutral'')
     (map (\<lambda>s. \<lparr>FeedbackRecord.date = 0, category = ''x'', rating = 3, sentiment_score = s\<rparr>)
        [Fin (1/10), Fin (1/2), Fin (9/10), Fin (7/10), Fin (3/10)]))"
proof -
  let ?fb = "map (\<lambda>s. \<lparr>FeedbackRecord.date = 0, category = ''x'', rating = 3, sentiment_score = s\<rparr>)
        [Fin (1/10), Fin (1/2), Fin (9/10), Fin (7/10), Fin (3/10) :: rat xnum]"
  have e: "sentiment_counts ?fb = [(''Neutral'', 3), (''Negative'', 1), (''Positive'', 1)]"
    by code_simp
  then have m: "(''Neutral'', 3) \<in> set (sentiment_counts ?fb)"
    by simp
  with sentiment_counts_buckets [of ?fb "''Neutral''" 3]
  have "(3::nat) = length (filter (\<lambda>r. categorize_sentiment (sentiment_score r) = ''Neutral'') ?fb)"
    by blast
  with e m show ?thesis by blast
qed

section \<open>Properties of grouping\<close>

lemma groupby_sum_keys: "map fst (groupby_sum rows) = sort (remdups (map fst rows))"
  by (simp add: groupby_sum_def comp_def)


lemma groupby_sum_distinct: "distinct (map fst (groupby_sum rows))"
  by (simp add: groupby_sum_keys)

lemma groupby_sum_set: "set (map fst (groupby_sum rows)) = fst ` set rows"
  by (simp add: groupby_sum_keys)


lemma group_sums_total:
  "finite K \<Longrightarrow> fst ` set rows \<subseteq> K \<Longrightarrow>
     (\<Sum>k\<in>K. sum_list (map snd (filter (\<lambda>row. fst row = k) rows))) = sum_list (map snd rows)"
proof (induction rows)
  case Nil
  then show ?case by simp
next
  case (Cons r rows)
  have "(\<Sum>k\<in>K. sum_list (map snd (filter (\<lambda>row. fst row = k) (r # rows))))
        = (\<Sum>k\<in>K. (if fst r = k then snd r else 0)
                    + sum_list (map snd (filter (\<lambda>row. fst row = k) rows)))"
    by (rule sum.cong) auto
  also have "\<dots> = (\<Sum>k\<in>K. if fst r = k then snd r else 0)
                  + (\<Sum>k\<in>K. sum_list (map snd (filter (\<lambda>row. fst row = k) rows)))"
    by (rule sum.distrib)
  also have "(\<Sum>k\<in>K. if fst r = k then snd r else 0) = snd r"
    using Cons.prems by simp
  finally show ?case using Cons by simp
qed

lemma groupby_sum_total: "sum_list (map snd (groupby_sum rows)) = sum_list (map snd rows)"
proof -
  let ?g = "\<lambda>k. sum_list (map snd (filter (\<lambda>row. fst row = k) rows))"
  let ?ks = "sort (remdups (map fst rows))"
  have "sum_list (map snd (groupby_sum rows)) = sum_list (map ?g ?ks)"
    by (simp add: groupby_sum_def comp_def)
  also have "\<dots> = sum ?g (set ?ks)"
    by (rule sum_list_distinct_conv_sum_set) simp
  also have "\<dots> = sum_list (map snd rows)"
    by (rule group_sums_total) auto
  finally show ?thesis .
qed

lemma filter_map_key:
  "map snd (filter (\<lambda>row. fst row = k) (map (\<lambda>r. (f r, g r)) xs))
     = map g (filter (\<lambda>r. f r = k) xs)"
  by (induction xs) auto

section \<open>Properties of the daily series\<close>



section \<open>Properties of the reprojection\<close>

lemma reproject_Inr:
  "geo \<noteq> [] \<Longrightarrow>
   reproject tr geo =
     Inr (map (\<lambda>row. \<lparr>latitude = latitude row, longitude = longitude row,
                      region = region row, sales = GeoRecord.sales row,
                      mercator_x = fst (tr (longitude row) (latitude row)),
                      mercator_y = snd (tr (longitude row) (latitude row))\<rparr>) geo)"
  by (simp add: reproject_def case_prod_beta)

lemma reproject_Inl: "reproject tr geo = Inl e \<longleftrightarrow> geo = []"
  by (cases e) (simp add: reproject_def)

lemma reproject_nth:
  assumes "reproject tr geo = Inr pts" "i < length geo"
  shows "pts ! i = \<lparr>latitude = latitude (geo ! i), longitude = longitude (geo ! i),
                   region = region (geo ! i), sales = GeoRecord.sales (geo ! i),
                   mercator_x = fst (tr (longitude (geo ! i)) (latitude (geo ! i))),
                   mercator_y = snd (tr (longitude (geo ! i)) (latitude (geo ! i)))\<rparr>"
proof -
  from assms have "geo \<noteq> []" by auto
  with assms(1) have "pts = map (\<lambda>row. \<lparr>latitude = latitude row, longitude = longitude row,
                      region = region row, sales = GeoRecord.sales row,
                      mercator_x = fst (tr (longitude row) (latitude row)),
                      mercator_y = snd (tr (longitude row) (latitude row))\<rparr>) geo"
    by (simp add: reproject_Inr)
  with assms(2) show ?thesis by simp
qed

text \<open>
  Claim C7. The reprojection gives one point per record of the table, in the order of the
  table; region, sales, latitude and longitude of every record are those of its point, and
  the two new fields are the coordinates that the transformer returns for the record. The
  only run without points is the one on a table without rows, which raises.
\<close>

theorem reproject_frame:
  "(case reproject tr geo of
      Inl e \<Rightarrow> geo = []
    | Inr pts \<Rightarrow>
        length pts = length geo
        \<and> map region pts = map region geo
        \<and> map GeoRecord.sales pts = map GeoRecord.sales geo
        \<and> map latitude pts = map latitude geo
        \<and> map longitude pts = map longitude geo
        \<and> map (\<lambda>p. (mercator_x p, mercator_y p)) pts
            = map (\<lambda>row. tr (longitude row) (latitude row)) geo)"
proof (cases "geo = []")
  case True
  then show ?thesis by (simp add: reproject_def)
next
  case False
  then show ?thesis by (simp add: reproject_Inr comp_def)
qed

theorem reproject_frame_witness:
  "(\<exists>pts. reproject (\<lambda>lon lat. (Fin lon, Fin lat))
            [\<lparr>latitude = 48, longitude = 2, region = ''north'', sales = 10\<rparr>,
             \<lparr>latitude = 43, longitude = 5, region = ''south'', sales = 20\<rparr>] = Inr pts
      \<and> length pts = 2
      \<and> map region pts = [''north'', ''south'']
      \<and> map GeoRecord.sales pts = [10, 20]
      \<and> map latitude pts = [48, 43]
      \<and> map longitude pts = [2, 5]
      \<and> map (\<lambda>p. (mercator_x p, mercator_y p)) pts = [(Fin 2, Fin 48), (Fin 5, Fin 43)])"
  using reproject_frame [where tr = "\<lambda>lon lat. (Fin lon, Fin lat)" and geo =
            "[\<lparr>latitude = 48, longitude = 2, region = ''north'', sales = 10\<rparr>,
             \<lparr>latitude = 43, longitude = 5, region = ''south'', sales = 20\<rparr>]"]
  by (simp add: reproject_def)




text \<open>
  Claim C6. The easting is \<open>R * \<lambda>\<close> and, for a latitude strictly between the poles, the
  northing is \<open>R * ln (tan (\<pi>/4 + \<phi>/2))\<close>, with \<open>R = 6378137\<close> and the angles in radians,
  for the transformer and so for every record of the table; the point of longitude 0 and
  latitude 0 goes to (0, 0); and for a fixed latitude the easting grows strictly with the
  longitude.
\<close>

theorem transform_formulas:
  "earth_radius = 6378137
   \<and> radians lon = lon * pi / 180
   \<and> fst (transform lon lat) = Fin (earth_radius * radians lon)
   \<and> (- 90 < lat \<and> lat < 90 \<longrightarrow>
        snd (transform lon lat) = Fin (earth_radius * ln (tan (pi / 4 + radians lat / 2))))
   \<and> (reproject transform geo = Inr pts \<and> i < length geo \<longrightarrow>
        mercator_x (pts ! i) = Fin (earth_radius * radians (longitude (geo ! i)))
        \<and> (- 90 < latitude (geo ! i) \<and> latitude (geo ! i) < 90 \<longrightarrow>
             mercator_y (pts ! i)
               = Fin (earth_radius * ln (tan (pi / 4 + radians (latitude (geo ! i)) / 2)))))
   \<and> transform 0 0 = (Fin 0, Fin 0)
   \<and> (lon < lon' \<longrightarrow> xgt (fst (transform lon' lat)) (fst (transform lon lat)))"
proof -
  have "tan (pi / 4) = 1" by (rule tan_45)
  then have z: "transform 0 0 = (Fin 0, Fin 0)"
    by (simp add: transform_def radians_def)
  have m: "lon < lon' \<longrightarrow> xgt (fst (transform lon' lat)) (fst (transform lon lat))"
    by (simp add: transform_def radians_def earth_radius_def)
  have r: "reproject transform geo = Inr pts \<and> i < length geo \<longrightarrow>
        mercator_x (pts ! i) = Fin (earth_radius * radians (longitude (geo ! i)))
        \<and> (- 90 < latitude (geo ! i) \<and> latitude (geo ! i) < 90 \<longrightarrow>
             mercator_y (pts ! i)
               = Fin (earth_radius * ln (tan (pi / 4 + radians (latitude (geo ! i)) / 2))))"
  proof (intro impI)
    assume "reproject transform geo = Inr pts \<and> i < length geo"
    then have n: "pts ! i = \<lparr>latitude = latitude (geo ! i), longitude = longitude (geo ! i),
                   region = region (geo ! i), sales = GeoRecord.sales (geo ! i),
                   mercator_x = fst (transform (longitude (geo ! i)) (latitude (geo ! i))),
                   mercator_y = snd (transform (longitude (geo ! i)) (latitude (geo ! i)))\<rparr>"
      using reproject_nth by blast
    show "mercator_x (pts ! i) = Fin (earth_radius * radians (longitude (geo ! i)))
        \<and> (- 90 < latitude (geo ! i) \<and> latitude (geo ! i) < 90 \<longrightarrow>
             mercator_y (pts ! i)
               = Fin (earth_radius * ln (tan (pi / 4 + radians (latitude (geo ! i)) / 2))))"
      by (simp add: n transform_def)
  qed
  have f: "fst (transform lon lat) = Fin (earth_radius * radians lon)"
    "- 90 < lat \<and> lat < 90 \<longrightarrow>
        snd (transform lon lat) = Fin (earth_radius * ln (tan (pi / 4 + radians lat / 2)))"
    by (simp_all add: transform_def)
  have c: "earth_radius = 6378137" "radians lon = lon * pi / 180"
    by (simp_all add: earth_radius_def radians_def)
  from c f r z m show ?thesis by blast
qed

theorem transform_formulas_witness:
  "- 90 < (45::real) \<and> (45::real) < 90
   \<and> snd (transform 10 45) = Fin (earth_radius * ln (tan (pi / 4 + radians 45 / 2)))
   \<and> (10::real) < 20 \<and> xgt (fst (transform 20 45)) (fst (transform 10 45))
   \<and> (\<exists>pts. reproject transform
          [\<lparr>latitude = 45, longitude = 10, region = ''r'', sales = 1\<rparr>] = Inr pts
        \<and> mercator_x (pts ! 0) = Fin (earth_radius * radians 10)
        \<and> mercator_y (pts ! 0) = Fin (earth_radius * ln (tan (pi / 4 + radians 45 / 2))))"
proof -
  let ?geo = "[\<lparr>latitude = 45, longitude = 10, region = ''r'', sales = 1\<rparr>]"
  have h: "- 90 < (45::real)" "(45::real) < 90" "(10::real) < 20"
    by simp_all
  obtain pts where p: "reproject transform ?geo = Inr pts"
    by (simp add: reproject_def)
  have g: "(0::nat) < length ?geo" "latitude (?geo ! 0) = 45" "longitude (?geo ! 0) = 10"
    by simp_all
  note T = transform_formulas [of 10 45 ?geo pts 0 20]
  from T h have a: "snd (transform 10 45) = Fin (earth_radius * ln (tan (pi / 4 + radians 45 / 2)))"
    by blast
  from T h have b: "xgt (fst (transform 20 45)) (fst (transform 10 45))"
    by blast
  from T p g(1)
  have "mercator_x (pts ! 0) = Fin (earth_radius * radians (longitude (?geo ! 0)))
        \<and> (- 90 < latitude (?geo ! 0) \<and> latitude (?geo ! 0) < 90 \<longrightarrow>
             mercator_y (pts ! 0)
               = Fin (earth_radius * ln (tan (pi / 4 + radians (latitude (?geo ! 0)) / 2))))"
    by blast
  then have c: "mercator_x (pts ! 0) = Fin (earth_radius * radians 10)"
    "mercator_y (pts ! 0) = Fin (earth_radius * ln (tan (pi / 4 + radians 45 / 2)))"
    by simp_all
  note a b c
  with h p show ?thesis by blast
qed

section \<open>Properties of the heatmap\<close>

lemma sort_remdups_set: "set xs = set ys \<Longrightarrow> sort (remdups xs) = sort (remdups ys)"
  by (simp add: sorted_list_of_set_sort_remdups [symmetric])

lemma map_of_groupby_sum:
  "map_of (groupby_sum rows) k =
     (if k \<in> fst ` set rows
      then Some (sum_list (map snd (filter (\<lambda>row. fst row = k) rows))) else None)"
proof -
  have "map_of (map (\<lambda>k. (k, f k)) ks) k = (if k \<in> set ks then Some (f k) else None)"
    for f :: "'a \<Rightarrow> rat" and ks
    by (induction ks) auto
  then show ?thesis
    by (simp add: groupby_sum_def)
qed

lemma fill_groupby_sum:
  "(case map_of (groupby_sum rows) k of None \<Rightarrow> Some 0 | Some x \<Rightarrow> Some x)
     = Some (sum_list (map snd (filter (\<lambda>row. fst row = k) rows)))"
proof (cases "k \<in> fst ` set rows")
  case True
  then show ?thesis by (simp add: map_of_groupby_sum)
next
  case False
  then have "filter (\<lambda>row. fst row = k) rows = []"
    by (auto simp: filter_empty_conv)
  with False show ?thesis by (simp add: map_of_groupby_sum)
qed

lemma melt_grid:
  "melt \<lparr>index = ds, columns = cs, vals = map (\<lambda>d. map (h d) cs) ds\<rparr>
     = concat (map (\<lambda>c. map (\<lambda>d. (d, c, h d c)) ds) cs)"
proof -
  have inner: "map (\<lambda>(i, r). (i, c, r ! j)) (zip ds (map (\<lambda>d. map (h d) cs) ds))
                 = map (\<lambda>d. (d, c, h d c)) ds"
    if "(j, c) \<in> set (enumerate 0 cs)" for j c
  proof -
    from that have "j < length cs" "cs ! j = c"
      by (auto simp: in_set_enumerate_eq)
    then show ?thesis
      by (simp add: zip_map2 zip_same_conv_map)
  qed
  have "map (\<lambda>(j, c). map (\<lambda>(i, r). (i, c, r ! j)) (zip ds (map (\<lambda>d. map (h d) cs) ds)))
            (enumerate 0 cs)
        = map (\<lambda>(j, c). map (\<lambda>d. (d, c, h d c)) ds) (enumerate 0 cs)"
    by (rule map_cong) (auto simp: inner)
  also have "\<dots> = map ((\<lambda>c. map (\<lambda>d. (d, c, h d c)) ds) \<circ> snd) (enumerate 0 cs)"
    by (simp add: comp_def case_prod_beta)
  also have "\<dots> = map (\<lambda>c. map (\<lambda>d. (d, c, h d c)) ds) cs"
    by (simp only: map_map [symmetric] map_snd_enumerate)
  finally show ?thesis
    by (simp add: melt_def)
qed

lemma reindex_grid:
  "reindex labels \<lparr>index = idx, columns = cs, vals = map (\<lambda>i. map (g i) cs) idx\<rparr>
     = \<lparr>index = labels, columns = cs,
        vals = map (\<lambda>l. map (\<lambda>c. if l \<in> set idx then g l c else None) cs) labels\<rparr>"
  by (simp add: reindex_def map_of_zip_map map_replicate_const)

text \<open>
  The matrix in closed form. Its rows are the seven weekdays and its columns the categories
  of the table in ascending order. The cell of a weekday that some record falls on holds the
  sum of the sales of the records of that weekday and category, 0 if there is none; every
  cell of a weekday that no record falls on is NaN.
\<close>

lemma heatmap_pivot_closed_form:
  "heatmap_pivot sd =
     Inr \<lparr>index = days_order,
          columns = sort (remdups (map SalesRecord.category sd)),
          vals = map (\<lambda>d. map (\<lambda>c.
                   if d \<in> (\<lambda>r. day_name (SalesRecord.date r)) ` set sd
                   then Some (sum_list (map SalesRecord.sales
                          (filter (\<lambda>r. day_name (SalesRecord.date r) = d
                                       \<and> SalesRecord.category r = c) sd)))
                   else None) (sort (remdups (map SalesRecord.category sd)))) days_order\<rparr>"
proof -
  let ?rows = "map (\<lambda>r. ((day_name (SalesRecord.date r), SalesRecord.category r),
                          SalesRecord.sales r)) sd"
  let ?hd = "groupby_sum ?rows"
  let ?idx = "sort (remdups (map (fst \<circ> fst) ?hd))"
  let ?cols = "sort (remdups (map (snd \<circ> fst) ?hd))"
  let ?cs = "sort (remdups (map SalesRecord.category sd))"
  let ?fill = "\<lambda>cell :: rat option. case cell of None \<Rightarrow> Some 0 | Some x \<Rightarrow> Some x"
  have keys: "set (map fst ?hd) = (\<lambda>r. (day_name (SalesRecord.date r), SalesRecord.category r)) ` set sd"
    unfolding groupby_sum_set by (simp add: image_image)
  have "set (map (snd \<circ> fst) ?hd) = snd ` set (map fst ?hd)"
    by (simp add: image_image)
  also have "\<dots> = set (map SalesRecord.category sd)"
    unfolding keys by (simp add: image_image)
  finally have cols: "?cols = ?cs"
    by (rule sort_remdups_set)
  have "set ?idx = fst ` set (map fst ?hd)"
    by (simp add: image_image)
  also have "\<dots> = (\<lambda>r. day_name (SalesRecord.date r)) ` set sd"
    unfolding keys by (simp add: image_image)
  finally have idx: "set ?idx = (\<lambda>r. day_name (SalesRecord.date r)) ` set sd" .
  have p: "pivot ?hd = Inr \<lparr>index = ?idx, columns = ?cs,
             vals = map (\<lambda>i. map (\<lambda>c. map_of ?hd (i, c)) ?cs) ?idx\<rparr>"
    using cols by (simp add: pivot_def Let_def groupby_sum_distinct)
  have f: "fillna 0 \<lparr>index = ?idx, columns = ?cs,
             vals = map (\<lambda>i. map (\<lambda>c. map_of ?hd (i, c)) ?cs) ?idx\<rparr>
           = \<lparr>index = ?idx, columns = ?cs,
             vals = map (\<lambda>i. map (\<lambda>c. ?fill (map_of ?hd (i, c))) ?cs) ?idx\<rparr>"
    by (simp add: fillna_def comp_def)
  have cell: "?fill (map_of ?hd (d, c))
      = Some (sum_list (map SalesRecord.sales
                          (filter (\<lambda>r. day_name (SalesRecord.date r) = d
                                       \<and> SalesRecord.category r = c) sd)))" for d c
    by (simp add: fill_groupby_sum filter_map_key)
  have r: "reindex days_order \<lparr>index = ?idx, columns = ?cs,
             vals = map (\<lambda>i. map (\<lambda>c. ?fill (map_of ?hd (i, c))) ?cs) ?idx\<rparr>
           = \<lparr>index = days_order, columns = ?cs,
              vals = map (\<lambda>d. map (\<lambda>c.
                   if d \<in> (\<lambda>r. day_name (SalesRecord.date r)) ` set sd
                   then Some (sum_list (map SalesRecord.sales
                          (filter (\<lambda>r. day_name (SalesRecord.date r) = d
                                       \<and> SalesRecord.category r = c) sd)))
                   else None) ?cs) days_order\<rparr>"
    unfolding reindex_grid idx cell ..
  show ?thesis
    by (simp only: heatmap_pivot_def heatmap_data_def p sum.case f r)
qed

lemma heatmap_source_closed_form:
  "heatmap_source sd =
     Inr (concat (map (\<lambda>c. map (\<lambda>d. (d, c,
                   if d \<in> (\<lambda>r. day_name (SalesRecord.date r)) ` set sd
                   then Some (sum_list (map SalesRecord.sales
                          (filter (\<lambda>r. day_name (SalesRecord.date r) = d
                                       \<and> SalesRecord.category r = c) sd)))
                   else None)) days_order) (sort (remdups (map SalesRecord.category sd)))))"
  unfolding heatmap_source_def heatmap_pivot_closed_form
  by (simp add: melt_grid)

lemma length_days_order: "length days_order = 7"
  by (simp add: days_order_def)

lemma distinct_days_order: "distinct days_order"
  by (simp add: days_order_def)

lemma day_name_in_days_order: "day_name d \<in> set days_order"
proof -
  have "nat ((d + 3) mod 7) < length days_order"
    by (simp add: length_days_order nat_less_iff)
  then show ?thesis
    unfolding day_name_def by (rule nth_mem)
qed

text \<open>
  The matrix always has the seven weekdays as rows and one column per category of the
  table, so the cell list has seven cells per category; without records it has seven rows
  and no column.
\<close>

lemma heatmap_pivot_shape:
  "\<exists>p. heatmap_pivot sd = Inr p
       \<and> index p = days_order
       \<and> columns p = sort (remdups (map SalesRecord.category sd))
       \<and> length (vals p) = 7
       \<and> list_all (\<lambda>row. length row = card (SalesRecord.category ` set sd)) (vals p)"
proof -
  have "length (sort (remdups (map SalesRecord.category sd)))
          = card (SalesRecord.category ` set sd)"
    by (simp add: length_remdups_card_conv)
  then show ?thesis
    unfolding heatmap_pivot_closed_form
    by (simp add: length_days_order list_all_iff)
qed

lemma heatmap_source_length:
  "\<exists>cells. heatmap_source sd = Inr cells
       \<and> length cells = 7 * card (SalesRecord.category ` set sd)"
proof -
  have "length (sort (remdups (map SalesRecord.category sd)))
          = card (SalesRecord.category ` set sd)"
    by (simp add: length_remdups_card_conv)
  then show ?thesis
    unfolding heatmap_source_closed_form
    by (simp add: length_concat comp_def length_days_order sum_list_triv)
qed


text \<open>
  A cell is NaN exactly when no record of the table falls on its weekday; a cell of a
  weekday with records but none of the category is 0.
\<close>

lemma heatmap_source_cell:
  "heatmap_source sd = Inr cells \<Longrightarrow> (d, c, v) \<in> set cells \<Longrightarrow>
     v = (if d \<in> (\<lambda>r. day_name (SalesRecord.date r)) ` set sd
          then Some (sum_list (map SalesRecord.sales
                 (filter (\<lambda>r. day_name (SalesRecord.date r) = d
                              \<and> SalesRecord.category r = c) sd)))
          else None)"
  unfolding heatmap_source_closed_form by auto

lemma heatmap_source_cells:
  "heatmap_source sd = Inr cells \<Longrightarrow>
     (\<lambda>(d, c, v). (d, c)) ` set cells = set days_order \<times> SalesRecord.category ` set sd"
  unfolding heatmap_source_closed_form by force

text \<open>
  Sum conservation for the two grouped tables, and for the heatmap when NaN cells are
  skipped, as \<^verbatim>\<open>Series.sum()\<close> skips them.
\<close>

lemma daily_sales_total:
  "sum_list (map snd (daily_sales sd)) = sum_list (map SalesRecord.sales sd)"
  by (simp add: daily_sales_def groupby_sum_total comp_def)

lemma category_sales_total:
  "sum_list (map snd (category_sales sd)) = sum_list (map SalesRecord.sales sd)"
  by (simp add: category_sales_def groupby_sum_total comp_def)

lemma sum_list_concat_rat: "sum_list (concat xss) = sum_list (map sum_list xss)"
  for xss :: "rat list list"
  by (induction xss) simp_all

lemma grid_sums_total:
  fixes h :: "'a \<Rightarrow> rat"
  assumes "distinct cs" "distinct ds"
    and "\<forall>r \<in> set sd. f r \<in> set ds \<and> g r \<in> set cs"
  shows "sum_list (map (\<lambda>c. sum_list (map (\<lambda>d.
            sum_list (map h (filter (\<lambda>r. f r = d \<and> g r = c) sd))) ds)) cs)
         = sum_list (map h sd)"
proof -
  let ?rows = "map (\<lambda>r. ((g r, f r), h r)) sd"
  let ?S = "\<lambda>c d. sum_list (map h (filter (\<lambda>r. f r = d \<and> g r = c) sd))"
  have S: "?S c d = sum_list (map snd (filter (\<lambda>row. fst row = (c, d)) ?rows))" for c d
  proof -
    have "(\<lambda>r. f r = d \<and> g r = c) = (\<lambda>r. (g r, f r) = (c, d))"
      by auto
    then show ?thesis
      by (simp only: filter_map_key)
  qed
  have "sum_list (map (\<lambda>c. sum_list (map (?S c) ds)) cs)
          = (\<Sum>c\<in>set cs. \<Sum>d\<in>set ds. ?S c d)"
    using assms(1,2) by (simp add: sum_list_distinct_conv_sum_set)
  also have "\<dots> = (\<Sum>k\<in>set cs \<times> set ds. ?S (fst k) (snd k))"
    by (simp add: sum.cartesian_product case_prod_beta)
  also have "\<dots> = (\<Sum>k\<in>set cs \<times> set ds.
                      sum_list (map snd (filter (\<lambda>row. fst row = k) ?rows)))"
    by (rule sum.cong) (simp_all only: S prod.collapse)
  also have "\<dots> = sum_list (map snd ?rows)"
    by (rule group_sums_total) (use assms(3) in auto)
  also have "\<dots> = sum_list (map h sd)"
    by (simp add: comp_def)
  finally show ?thesis .
qed

lemma heatmap_source_total_skipna:
  "\<exists>cells. heatmap_source sd = Inr cells
     \<and> sum_list (map (\<lambda>(d, c, v). case v of None \<Rightarrow> 0 | Some x \<Rightarrow> x) cells)
         = sum_list (map SalesRecord.sales sd)"
proof -
  let ?D = "(\<lambda>r. day_name (SalesRecord.date r)) ` set sd"
  let ?S = "\<lambda>c d. sum_list (map SalesRecord.sales
                 (filter (\<lambda>r. day_name (SalesRecord.date r) = d
                              \<and> SalesRecord.category r = c) sd))"
  let ?cs = "sort (remdups (map SalesRecord.category sd))"
  have absent: "?S c d = 0" if "d \<notin> ?D" for c d
  proof -
    from that have "filter (\<lambda>r. day_name (SalesRecord.date r) = d
                              \<and> SalesRecord.category r = c) sd = []"
      by (auto simp: filter_empty_conv)
    then show ?thesis by simp
  qed
  have val: "(case (if d \<in> ?D then Some (?S c d) else None) of None \<Rightarrow> 0 | Some x \<Rightarrow> x)
               = ?S c d" for c d
    using absent [of d c] by simp
  have "sum_list (map (\<lambda>c. sum_list (map (?S c) days_order)) ?cs)
          = sum_list (map SalesRecord.sales sd)"
    by (rule grid_sums_total) (simp_all add: distinct_days_order day_name_in_days_order)
  then show ?thesis
    unfolding heatmap_source_closed_form
    by (simp add: map_concat sum_list_concat_rat comp_def val)
qed

lemma sum_cells_Some: "sum_cells (map Some xs) = Some (sum_list xs)"
  by (induction xs) (simp_all add: sum_cells_def)

lemma sum_cells_None: "None \<in> set cells \<Longrightarrow> sum_cells cells = None"
proof (induction cells)
  case Nil
  then show ?case by simp
next
  case (Cons a cells)
  then show ?case
    by (cases a; cases "foldr add_cell cells (Some 0)") (auto simp: sum_cells_def)
qed

text \<open>
  The plain sum of the cells equals the sum of the table when every weekday has a record,
  and is NaN as soon as a weekday has none.
\<close>

lemma heatmap_source_total_all_days:
  assumes "set days_order \<subseteq> (\<lambda>r. day_name (SalesRecord.date r)) ` set sd"
  shows "\<exists>cells. heatmap_source sd = Inr cells
     \<and> sum_cells (map (\<lambda>(d, c, v). v) cells) = Some (sum_list (map SalesRecord.sales sd))"
proof -
  let ?D = "(\<lambda>r. day_name (SalesRecord.date r)) ` set sd"
  let ?S = "\<lambda>c d. sum_list (map SalesRecord.sales
                 (filter (\<lambda>r. day_name (SalesRecord.date r) = d
                              \<and> SalesRecord.category r = c) sd))"
  let ?cs = "sort (remdups (map SalesRecord.category sd))"
  let ?cells = "concat (map (\<lambda>c. map (\<lambda>d. (d, c, if d \<in> ?D then Some (?S c d) else None))
                   days_order) ?cs)"
  have row: "map (\<lambda>d. (if d \<in> ?D then Some (?S c d) else None)) days_order
               = map (\<lambda>d. Some (?S c d)) days_order" for c
    by (rule map_cong) (use assms in auto)
  have "map (\<lambda>(d, c, v). v) ?cells
          = concat (map (\<lambda>c. map (\<lambda>d. (if d \<in> ?D then Some (?S c d) else None)) days_order) ?cs)"
    by (simp add: map_concat comp_def)
  also have "\<dots> = concat (map (\<lambda>c. map (\<lambda>d. Some (?S c d)) days_order) ?cs)"
    by (simp only: row)
  also have "\<dots> = map Some (concat (map (\<lambda>c. map (?S c) days_order) ?cs))"
    by (simp add: map_concat comp_def)
  finally have "sum_cells (map (\<lambda>(d, c, v). v) ?cells)
          = Some (sum_list (concat (map (\<lambda>c. map (?S c) days_order) ?cs)))"
    by (simp only: sum_cells_Some)
  also have "sum_list (concat (map (\<lambda>c. map (?S c) days_order) ?cs))
          = sum_list (map (\<lambda>c. sum_list (map (?S c) days_order)) ?cs)"
    by (simp add: sum_list_concat_rat comp_def)
  also have "\<dots> = sum_list (map SalesRecord.sales sd)"
    by (rule grid_sums_total) (simp_all add: distinct_days_order day_name_in_days_order)
  finally show ?thesis
    unfolding heatmap_source_closed_form by simp
qed

lemma in_grid:
  "c \<in> set cs \<Longrightarrow> d \<in> set ds \<Longrightarrow>
     (d, c, h d c) \<in> set (concat (map (\<lambda>c. map (\<lambda>d. (d, c, h d c)) ds) cs))"
  by auto

lemma heatmap_source_total_nan:
  assumes "sd \<noteq> []" "d \<in> set days_order"
    and "d \<notin> (\<lambda>r. day_name (SalesRecord.date r)) ` set sd"
  shows "\<exists>cells. heatmap_source sd = Inr cells
     \<and> sum_cells (map (\<lambda>(d, c, v). v) cells) = None"
proof -
  from assms(1) obtain r where "r \<in> set sd"
    by (cases sd) auto
  then have c: "SalesRecord.category r \<in> set (sort (remdups (map SalesRecord.category sd)))"
    by simp
  let ?h = "\<lambda>d c. if d \<in> (\<lambda>r. day_name (SalesRecord.date r)) ` set sd
                 then Some (sum_list (map SalesRecord.sales
                        (filter (\<lambda>r. day_name (SalesRecord.date r) = d
                                     \<and> SalesRecord.category r = c) sd)))
                 else None"
  let ?cells = "concat (map (\<lambda>c. map (\<lambda>d. (d, c, ?h d c)) days_order)
                   (sort (remdups (map SalesRecord.category sd))))"
  have cells: "heatmap_source sd = Inr ?cells"
    by (rule heatmap_source_closed_form)
  have "(d, SalesRecord.category r, ?h d (SalesRecord.category r)) \<in> set ?cells"
    using c assms(2) by (rule in_grid)
  moreover have "?h d (SalesRecord.category r) = None"
    using assms(3) by simp
  ultimately have "(d, SalesRecord.category r, None) \<in> set ?cells"
    by simp
  then have "None \<in> set (map (\<lambda>(d, c, v). v) ?cells)"
    by force
  then have "sum_cells (map (\<lambda>(d, c, v). v) ?cells) = None"
    by (rule sum_cells_None)
  with cells show ?thesis by simp
qed

text \<open>
  Claim C2 on a table whose only record is of Monday 2024-01-01: the matrix has its seven
  cells for category A, but the six cells of the weekdays without records are NaN, not 0.
\<close>

theorem heatmap_source_missing_weekdays:
  "heatmap_source [\<lparr>SalesRecord.date = to_datetime 2024 1 1, category = ''A'', sales = 100\<rparr>]
     = Inr [(''Monday'', ''A'', Some 100), (''Tuesday'', ''A'', None),
            (''Wednesday'', ''A'', None), (''Thursday'', ''A'', None),
            (''Friday'', ''A'', None), (''Saturday'', ''A'', None),
            (''Sunday'', ''A'', None)]"
  by code_simp

text \<open>
  Claim C4 on the same table: the daily series and the category totals sum to 100, the sum
  of the table, while the sum of the heatmap cells is NaN.
\<close>

theorem heatmap_sum_missing_weekdays:
  "sum_list (map snd (daily_sales
       [\<lparr>SalesRecord.date = to_datetime 2024 1 1, category = ''A'', sales = 100\<rparr>])) = 100
   \<and> sum_list (map snd (category_sales
       [\<lparr>SalesRecord.date = to_datetime 2024 1 1, category = ''A'', sales = 100\<rparr>])) = 100
   \<and> map_sum id (\<lambda>cells. sum_cells (map (\<lambda>(d, c, v). v) cells))
        (heatmap_source
       [\<lparr>SalesRecord.date = to_datetime 2024 1 1, category = ''A'', sales = 100\<rparr>])
       = Inr None"
  by code_simp

section \<open>Properties of the whole script\<close>



end
